theory Spec2Isabelle
  imports Main "HOL-Library.Word"
begin

section \<open>Values of the JavaScript runtime\<close>

text \<open>
  A \<open>Uint8Array\<close> and an \<open>ArrayBuffer\<close> are lists of bytes. A JavaScript
  \<open>number\<close> is modelled as an \<open>int\<close>: the model covers integer-valued arguments,
  on which the arithmetic of \<open>createWavBlob\<close> is exact below \<open>2 ^ 53\<close>.
  Something thrown is a value of \<open>js_thrown\<close>: \<open>Error\<close>, \<open>RangeError\<close> and the
  \<open>DOMException\<close> named \<open>InvalidCharacterError\<close> are instances of \<open>Error\<close> and carry
  a message (the messages of the runtime's own errors are engine specific; the wording
  of V8 and Chromium is used, and no theorem depends on it); \<open>ProgressEvent\<close> is
  what a \<open>FileReader\<close> hands to \<open>onerror\<close>, which is not an \<open>Error\<close>.
\<close>

type_synonym byte = "8 word"

datatype js_thrown =
    Error string
  | RangeError string
  | InvalidCharacterError string
  | ProgressEvent

text \<open>Sequencing of fallible steps: the first thrown value ends the computation.\<close>

definition and_then :: "js_thrown + 'a \<Rightarrow> ('a \<Rightarrow> js_thrown + 'b) \<Rightarrow> js_thrown + 'b" where
  "and_then r f = (case r of Inl e \<Rightarrow> Inl e | Inr x \<Rightarrow> f x)"

section \<open>DataView and typed arrays\<close>

text \<open>
  \<open>DataView.prototype.setUint8/16/32 (byteOffset, value, littleEndian)\<close>: the value is
  reduced modulo \<open>2 ^ 8\<close>, \<open>2 ^ 16\<close>, \<open>2 ^ 32\<close> (\<open>word_of_int\<close> keeps the low eight
  bits), stored in the given byte order; an offset outside the view throws a
  \<open>RangeError\<close>.
\<close>

definition out_of_bounds :: js_thrown where
  "out_of_bounds = RangeError ''Offset is outside the bounds of the DataView''"

definition setUint8 :: "nat \<Rightarrow> int \<Rightarrow> byte list \<Rightarrow> js_thrown + byte list" where
  "setUint8 byteOffset v view =
     (if byteOffset + 1 \<le> length view
      then Inr (view[byteOffset := word_of_int v])
      else Inl out_of_bounds)"

definition setUint16 :: "nat \<Rightarrow> int \<Rightarrow> bool \<Rightarrow> byte list \<Rightarrow> js_thrown + byte list" where
  "setUint16 byteOffset v littleEndian view =
     (if byteOffset + 2 \<le> length view
      then
        (let b0 = word_of_int v; b1 = word_of_int (v div 256)
         in Inr (if littleEndian
                 then view[byteOffset := b0, byteOffset + 1 := b1]
                 else view[byteOffset := b1, byteOffset + 1 := b0]))
      else Inl out_of_bounds)"

definition setUint32 :: "nat \<Rightarrow> int \<Rightarrow> bool \<Rightarrow> byte list \<Rightarrow> js_thrown + byte list" where
  "setUint32 byteOffset v littleEndian view =
     (if byteOffset + 4 \<le> length view
      then
        (let b0 = word_of_int v; b1 = word_of_int (v div 256);
             b2 = word_of_int (v div 65536); b3 = word_of_int (v div 16777216)
         in Inr (if littleEndian
                 then view[byteOffset := b0, byteOffset + 1 := b1,
                           byteOffset + 2 := b2, byteOffset + 3 := b3]
                 else view[byteOffset := b3, byteOffset + 1 := b2,
                           byteOffset + 2 := b1, byteOffset + 3 := b0]))
      else Inl out_of_bounds)"

text \<open>
  \<open>new Int16Array(buffer)\<close> is a view of the buffer's bytes as 16-bit samples; it throws
  a \<open>RangeError\<close> when the byte length is odd. The view is kept as its bytes, and
  \<open>int16_length\<close> is its \<open>length\<close> property.
\<close>

definition Int16Array :: "byte list \<Rightarrow> js_thrown + byte list" where
  "Int16Array buffer =
     (if length buffer mod 2 = 0 then Inr buffer
      else Inl (RangeError ''byte length of Int16Array should be a multiple of 2''))"

definition int16_length :: "byte list \<Rightarrow> int" where
  "int16_length pcmInt16 = int (length pcmInt16 div 2)"

record Blob =
  blob_bytes :: "byte list"
  blob_type :: string

section \<open>createWavBlob (src/App.tsx)\<close>

text \<open>
  The arithmetic of \<open>createWavBlob\<close> is written over \<open>int\<close>. The source computes
  \<open>sampleRate * blockAlign\<close> in double precision, which agrees with the exact product
  as long as it stays below \<open>2 ^ 53\<close> in absolute value; beyond that the source
  rounds, and the model says nothing about the code. The theorems of the claims use
  products of at most \<open>2 ^ 32\<close>.
\<close>

text \<open>The loop \<open>for (i = 0; i < pcmData.byteLength; i++) dataView.setUint8(i, pcmData[i])\<close>.\<close>

function copy_loop :: "nat \<Rightarrow> byte list \<Rightarrow> byte list \<Rightarrow> js_thrown + byte list" where
  "copy_loop i pcmData dataView =
     (if i < length pcmData
      then and_then (setUint8 i (uint (pcmData ! i)) dataView) (copy_loop (Suc i) pcmData)
      else Inr dataView)"
  by pat_completeness auto
termination
  by (relation "measure (\<lambda>(i, pcmData, dataView). length pcmData - i)") auto

definition createWavBlob :: "byte list \<Rightarrow> int \<Rightarrow> int \<Rightarrow> js_thrown + Blob" where
  "createWavBlob pcmData sampleRate numChannels =
     and_then (copy_loop 0 pcmData (replicate (length pcmData) 0)) (\<lambda>dataView.
     and_then (Int16Array dataView) (\<lambda>pcmInt16.
       let numSamples = int16_length pcmInt16;
           bitsPerSample = 16;
           blockAlign = (numChannels * bitsPerSample) div 8;
           byteRate = sampleRate * blockAlign;
           dataSize = numSamples * (bitsPerSample div 8)
       in
     and_then (setUint32 0 0x52494646 False (replicate 44 0)) (\<lambda>view.
     and_then (setUint32 4 (36 + dataSize) True view) (\<lambda>view.
     and_then (setUint32 8 0x57415645 False view) (\<lambda>view.
     and_then (setUint32 12 0x666d7420 False view) (\<lambda>view.
     and_then (setUint32 16 16 True view) (\<lambda>view.
     and_then (setUint16 20 1 True view) (\<lambda>view.
     and_then (setUint16 22 numChannels True view) (\<lambda>view.
     and_then (setUint32 24 sampleRate True view) (\<lambda>view.
     and_then (setUint32 28 byteRate True view) (\<lambda>view.
     and_then (setUint16 32 blockAlign True view) (\<lambda>view.
     and_then (setUint16 34 bitsPerSample True view) (\<lambda>view.
     and_then (setUint32 36 0x64617461 False view) (\<lambda>view.
     and_then (setUint32 40 dataSize True view) (\<lambda>view.
       Inr \<lparr>blob_bytes = view @ pcmInt16, blob_type = ''audio/wav''\<rparr>)))))))))))))))"

text \<open>Reading a header field back: an unsigned little-endian integer at a byte offset.\<close>

definition le_uint16 :: "byte list \<Rightarrow> nat \<Rightarrow> int" where
  "le_uint16 bs off = uint (bs ! off) + 256 * uint (bs ! (off + 1))"

definition le_uint32 :: "byte list \<Rightarrow> nat \<Rightarrow> int" where
  "le_uint32 bs off =
     uint (bs ! off) + 256 * uint (bs ! (off + 1)) + 65536 * uint (bs ! (off + 2))
       + 16777216 * uint (bs ! (off + 3))"

text \<open>The bytes of a field as ASCII text.\<close>

definition ascii_at :: "byte list \<Rightarrow> nat \<Rightarrow> nat \<Rightarrow> string" where
  "ascii_at bs off n = map (\<lambda>b. char_of (unat b)) (take n (drop off bs))"

section \<open>decode (src/App.tsx)\<close>

text \<open>
  \<open>atob\<close> is the browser's, not this repository's: it is the forgiving-base64 decode
  of the WHATWG Infra Standard, as the HTML Standard prescribes. ASCII whitespace is
  removed; when the length is then a multiple of four, one or two trailing \<open>=\<close> are
  removed; a length that leaves remainder one, or any character left that is not of
  the base64 alphabet, is a failure, which \<open>atob\<close> throws as the \<open>DOMException\<close>
  \<open>InvalidCharacterError\<close>; otherwise every character stands for six bits, each 24
  bits give three bytes, and of 12 or 18 bits left over the last four or two are
  dropped. The result of \<open>atob\<close> is a string with one character per byte. Strings
  are lists of 8-bit characters here, so the input's code units above 255 (which
  \<open>atob\<close> rejects) are outside the model.
\<close>

definition b64_alphabet :: string where
  "b64_alphabet = ''ABCDEFGHIJKLMNOPQRSTUVWXYZabcdefghijklmnopqrstuvwxyz0123456789+/''"

fun index_of :: "'a \<Rightarrow> 'a list \<Rightarrow> nat option" where
  "index_of c [] = None"
| "index_of c (x # xs) = (if c = x then Some 0 else map_option Suc (index_of c xs))"

definition b64_value :: "char \<Rightarrow> nat option" where
  "b64_value c = index_of c b64_alphabet"

definition is_ascii_whitespace :: "char \<Rightarrow> bool" where
  "is_ascii_whitespace c =
     (c = CHR 0x09 \<or> c = CHR 0x0A \<or> c = CHR 0x0C \<or> c = CHR 0x0D \<or> c = CHR 0x20)"

definition strip_padding :: "string \<Rightarrow> string" where
  "strip_padding d =
     (if length d mod 4 = 0
      then (if 2 \<le> length d \<and> drop (length d - 2) d = ''==''
            then take (length d - 2) d
            else if 1 \<le> length d \<and> drop (length d - 1) d = ''=''
            then take (length d - 1) d
            else d)
      else d)"

fun decode_sextets :: "nat list \<Rightarrow> byte list" where
  "decode_sextets (a # b # c # d # rest) =
     (let n = a * 262144 + b * 4096 + c * 64 + d
      in [of_nat (n div 65536), of_nat (n div 256), of_nat n]) @ decode_sextets rest"
| "decode_sextets [a, b, c] =
     (let n = (a * 4096 + b * 64 + c) div 4
      in [of_nat (n div 256), of_nat n])"
| "decode_sextets [a, b] = [of_nat ((a * 64 + b) div 16)]"
| "decode_sextets [a] = []"
| "decode_sextets [] = []"

definition forgiving_base64_decode :: "string \<Rightarrow> byte list option" where
  "forgiving_base64_decode data =
     (let d = strip_padding (filter (\<lambda>c. \<not> is_ascii_whitespace c) data)
      in if length d mod 4 = 1 then None
         else map_option decode_sextets (those (map b64_value d)))"

definition atob :: "string \<Rightarrow> js_thrown + string" where
  "atob data =
     (case forgiving_base64_decode data of
        None \<Rightarrow> Inl (InvalidCharacterError ''The string to be decoded is not correctly encoded.'')
      | Some decodedData \<Rightarrow> Inr (map (\<lambda>b. char_of (unat b)) decodedData))"

definition charCodeAt :: "string \<Rightarrow> nat \<Rightarrow> nat" where
  "charCodeAt str i = of_char (str ! i)"

text \<open>The loop \<open>for (i = 0; i < len; i++) bytes[i] = binaryString.charCodeAt(i)\<close>.\<close>

function decode_loop :: "nat \<Rightarrow> string \<Rightarrow> byte list \<Rightarrow> byte list" where
  "decode_loop i binaryString bytes =
     (if i < length binaryString
      then decode_loop (Suc i) binaryString (bytes[i := of_nat (charCodeAt binaryString i)])
      else bytes)"
  by pat_completeness auto
termination
  by (relation "measure (\<lambda>(i, binaryString, bytes). length binaryString - i)") auto

definition decode :: "string \<Rightarrow> js_thrown + byte list" where
  "decode base64 =
     and_then (atob base64) (\<lambda>binaryString.
       let len = length binaryString;
           bytes = replicate len 0
       in Inr (decode_loop 0 binaryString bytes))"

text \<open>
  The standard base64 encoding of RFC 4648, with padding, which the claims about
  \<open>decode\<close> refer to: three bytes give four characters of the alphabet; one or two
  bytes left over give two or three characters and \<open>=\<close> up to four.
\<close>

definition b64_char :: "nat \<Rightarrow> char" where
  "b64_char i = b64_alphabet ! i"

fun base64_encode :: "byte list \<Rightarrow> string" where
  "base64_encode (x # y # z # rest) =
     (let n = unat x * 65536 + unat y * 256 + unat z
      in [b64_char (n div 262144), b64_char (n div 4096 mod 64),
          b64_char (n div 64 mod 64), b64_char (n mod 64)]) @ base64_encode rest"
| "base64_encode [x, y] =
     (let n = (unat x * 256 + unat y) * 4
      in [b64_char (n div 4096), b64_char (n div 64 mod 64), b64_char (n mod 64), CHR ''=''])"
| "base64_encode [x] =
     (let n = unat x * 16
      in [b64_char (n div 64), b64_char (n mod 64), CHR ''='', CHR ''=''])"
| "base64_encode [] = []"

section \<open>The services (src/services/geminiService.ts)\<close>

text \<open>
  A value of type \<open>string | undefined\<close> is a \<open>string option\<close>, \<open>None\<close> for
  \<open>undefined\<close>. The response of the provider is read at \<open>response.text\<close> and at
  \<open>response.candidates?.[0]?.content?.parts?.[0]?.inlineData?.data\<close>; each link of
  that chain can be absent.
\<close>

record InlineData =
  inline_data :: "string option"

record Part =
  part_inlineData :: "InlineData option"

record Content =
  content_parts :: "Part list option"

record Candidate =
  candidate_content :: "Content option"

record GenerateContentResponse =
  response_text :: "string option"
  response_candidates :: "Candidate list option"

datatype RequestPart =
    AudioPart string "string option"
  | TextPart string

record SpeechConfig =
  responseModalities :: "string list"
  voiceName :: string

record GenerateContentRequest =
  request_model :: string
  request_parts :: "RequestPart list"
  request_config :: "SpeechConfig option"

text \<open>
  The world outside the program: the environment variable \<open>API_KEY\<close>; the provider,
  which answers a request made with an API key by throwing or by a response; the
  requests sent over the network so far; the object URLs of the browser (those
  created and not yet revoked, and the number of the next one); and what was written
  to the console with \<open>console.error\<close>. An object URL is a string \<open>blob:...\<close> that is
  never empty; it is kept as the number that makes it unique.
\<close>

datatype object_url = BlobUrl nat

record world =
  env_API_KEY :: "string option"
  provider :: "string \<Rightarrow> GenerateContentRequest \<Rightarrow> js_thrown + GenerateContentResponse"
  requests_sent :: "GenerateContentRequest list"
  live_urls :: "object_url list"
  next_url :: nat
  console_errors :: "js_thrown list"

text \<open>\<open>!process.env.API_KEY\<close> holds for an absent variable and for the empty string.\<close>

definition getGenAI :: "world \<Rightarrow> js_thrown + string" where
  "getGenAI w =
     (case env_API_KEY w of
        None \<Rightarrow> Inl (Error ''API_KEY environment variable not set'')
      | Some apiKey \<Rightarrow>
          if apiKey = [] then Inl (Error ''API_KEY environment variable not set'')
          else Inr apiKey)"

text \<open>\<open>ai.models.generateContent(request)\<close>: the one place where the network is used.\<close>

definition generateContent ::
  "string \<Rightarrow> GenerateContentRequest \<Rightarrow> world \<Rightarrow> (js_thrown + GenerateContentResponse) \<times> world" where
  "generateContent ai request w =
     (provider w ai request, w\<lparr>requests_sent := requests_sent w @ [request]\<rparr>)"

definition transcript_request :: "string option \<Rightarrow> string \<Rightarrow> GenerateContentRequest" where
  "transcript_request base64AudioData mimeType =
     (let audioPart = AudioPart mimeType base64AudioData;
          textPart = TextPart ''Please provide a clean, accurate transcription of the following audio.''
      in \<lparr>request_model = ''gemini-2.5-flash'',
          request_parts = [audioPart, textPart],
          request_config = None\<rparr>)"

definition generateTranscriptFromAudio ::
  "string option \<Rightarrow> string \<Rightarrow> world \<Rightarrow> (js_thrown + string option) \<times> world" where
  "generateTranscriptFromAudio base64AudioData mimeType w =
     (case getGenAI w of
        Inl e \<Rightarrow> (Inl e, w)
      | Inr ai \<Rightarrow>
          (case generateContent ai (transcript_request base64AudioData mimeType) w of
             (Inl e, w') \<Rightarrow> (Inl e, w')
           | (Inr response, w') \<Rightarrow> (Inr (response_text response), w')))"

text \<open>A template literal writes \<open>undefined\<close> for an absent value.\<close>

definition template_string :: "string option \<Rightarrow> string" where
  "template_string v = (case v of None \<Rightarrow> ''undefined'' | Some str \<Rightarrow> str)"

definition speech_request :: "string option \<Rightarrow> GenerateContentRequest" where
  "speech_request text_in =
     \<lparr>request_model = ''gemini-2.5-flash-preview-tts'',
      request_parts = [TextPart (''Please say the following: '' @ template_string text_in)],
      request_config = Some \<lparr>responseModalities = [''AUDIO''], voiceName = ''Kore''\<rparr>\<rparr>"

text \<open>\<open>xs?.[0]\<close> on an array that may be absent or empty.\<close>

definition first_of :: "'a list option \<Rightarrow> 'a option" where
  "first_of xs = (case xs of None \<Rightarrow> None | Some [] \<Rightarrow> None | Some (x # _) \<Rightarrow> Some x)"

definition base64Audio_of :: "GenerateContentResponse \<Rightarrow> string option" where
  "base64Audio_of response =
     Option.bind (first_of (response_candidates response)) (\<lambda>candidate.
     Option.bind (candidate_content candidate) (\<lambda>content.
     Option.bind (first_of (content_parts content)) (\<lambda>part.
     Option.bind (part_inlineData part) inline_data)))"

definition generateSpeechFromText ::
  "string option \<Rightarrow> world \<Rightarrow> (js_thrown + string option) \<times> world" where
  "generateSpeechFromText text_in w =
     (case getGenAI w of
        Inl e \<Rightarrow> (Inl e, w)
      | Inr ai \<Rightarrow>
          (case generateContent ai (speech_request text_in) w of
             (Inl e, w') \<Rightarrow> (Inl e, w')
           | (Inr response, w') \<Rightarrow> (Inr (base64Audio_of response), w')))"

section \<open>The application state and its handlers (src/App.tsx)\<close>

text \<open>
  A \<open>File\<close> has its MIME type and what a \<open>FileReader\<close> makes of it:
  \<open>readAsDataURL\<close> ends in \<open>onload\<close> with a data URL, or in \<open>onerror\<close>
  (\<open>None\<close>).
\<close>

record File =
  file_type :: string
  file_dataURL :: "string option"

fun split_on :: "char \<Rightarrow> string \<Rightarrow> string list" where
  "split_on sep [] = [[]]"
| "split_on sep (c # cs) =
     (if c = sep then [] # split_on sep cs
      else (case split_on sep cs of [] \<Rightarrow> [[c]] | p # ps \<Rightarrow> (c # p) # ps))"

definition element_at :: "'a list \<Rightarrow> nat \<Rightarrow> 'a option" where
  "element_at xs i = (if i < length xs then Some (xs ! i) else None)"

definition fileToBase64 :: "File \<Rightarrow> js_thrown + (string option \<times> string)" where
  "fileToBase64 file =
     (case file_dataURL file of
        None \<Rightarrow> Inl ProgressEvent
      | Some result \<Rightarrow>
          (let data = element_at (split_on CHR '','' result) 1
           in Inr (data, file_type file)))"

text \<open>
  The state of the component \<open>App\<close>, one field per \<open>useState\<close>. The transcript is
  declared a \<open>string\<close> and holds whatever \<open>generateTranscriptFromAudio\<close> resolved
  with, which is \<open>undefined\<close> when the response has no text.
\<close>

record app_state =
  inputAudioFile :: "File option"
  inputAudioUrl :: "object_url option"
  transcript :: "string option"
  outputAudioUrl :: "object_url option"
  isLoading :: bool
  progressMessage :: string
  error :: "string option"

definition createObjectURL :: "world \<Rightarrow> object_url \<times> world" where
  "createObjectURL w =
     (BlobUrl (next_url w),
      w\<lparr>live_urls := live_urls w @ [BlobUrl (next_url w)], next_url := Suc (next_url w)\<rparr>)"

definition revokeObjectURL :: "object_url \<Rightarrow> world \<Rightarrow> world" where
  "revokeObjectURL url w = w\<lparr>live_urls := removeAll url (live_urls w)\<rparr>"

definition revoke_if_set :: "object_url option \<Rightarrow> world \<Rightarrow> world" where
  "revoke_if_set url w = (case url of None \<Rightarrow> w | Some u \<Rightarrow> revokeObjectURL u w)"

definition handleFileChange :: "File \<Rightarrow> app_state \<Rightarrow> world \<Rightarrow> app_state \<times> world" where
  "handleFileChange file s w =
     (let w1 = revoke_if_set (inputAudioUrl s) w;
          w2 = revoke_if_set (outputAudioUrl s) w1;
          (newAudioUrl, w3) = createObjectURL w2
      in (s\<lparr>inputAudioFile := Some file,
            inputAudioUrl := Some newAudioUrl,
            transcript := Some [],
            outputAudioUrl := None,
            error := None\<rparr>, w3))"

text \<open>\<open>err instanceof Error ? err.message : 'An unknown error occurred.'\<close>\<close>

fun errorMessage :: "js_thrown \<Rightarrow> string" where
  "errorMessage (Error message) = message"
| "errorMessage (RangeError message) = message"
| "errorMessage (InvalidCharacterError message) = message"
| "errorMessage ProgressEvent = ''An unknown error occurred.''"

text \<open>
  The body of the \<open>try\<close> block: the thrown value or normal completion, with the state
  and the world as they are when the block is left.
\<close>

definition try_block :: "File \<Rightarrow> app_state \<Rightarrow> world \<Rightarrow> (js_thrown + unit) \<times> app_state \<times> world" where
  "try_block file s w =
     (case fileToBase64 file of
        Inl e \<Rightarrow> (Inl e, s, w)
      | Inr (audioData, mimeType) \<Rightarrow>
          (let s1 = s\<lparr>progressMessage := ''Generating transcript...''\<rparr>
           in case generateTranscriptFromAudio audioData mimeType w of
                (Inl e, w1) \<Rightarrow> (Inl e, s1, w1)
              | (Inr generatedTranscript, w1) \<Rightarrow>
                  (let s2 = s1\<lparr>transcript := generatedTranscript\<rparr>;
                       s3 = s2\<lparr>progressMessage := ''Synthesizing audio...''\<rparr>
                   in case generateSpeechFromText generatedTranscript w1 of
                        (Inl e, w2) \<Rightarrow> (Inl e, s3, w2)
                      | (Inr None, w2) \<Rightarrow> (Inl (Error ''Failed to generate audio data.''), s3, w2)
                      | (Inr (Some synthesizedAudioData), w2) \<Rightarrow>
                          if synthesizedAudioData \<noteq> []
                          then
                            (let s4 = s3\<lparr>progressMessage := ''Processing audio...''\<rparr>
                             in case decode synthesizedAudioData of
                                  Inl e \<Rightarrow> (Inl e, s4, w2)
                                | Inr pcmData \<Rightarrow>
                                    (case createWavBlob pcmData 24000 1 of
                                       Inl e \<Rightarrow> (Inl e, s4, w2)
                                     | Inr wavBlob \<Rightarrow>
                                         (let (newAudioUrl, w3) = createObjectURL w2
                                          in (Inr (), s4\<lparr>outputAudioUrl := Some newAudioUrl\<rparr>, w3))))
                          else (Inl (Error ''Failed to generate audio data.''), s3, w2))))"

definition handleProcessAudio :: "app_state \<Rightarrow> world \<Rightarrow> app_state \<times> world" where
  "handleProcessAudio s w =
     (case inputAudioFile s of
        None \<Rightarrow> (s, w)
      | Some file \<Rightarrow>
          (let s0 = s\<lparr>isLoading := True,
                      error := None,
                      transcript := Some [],
                      outputAudioUrl := None,
                      progressMessage := ''Reading audio file...''\<rparr>;
               (r, s1, w1) = try_block file s0 w;
               (s2, w2) =
                 (case r of
                    Inl err \<Rightarrow>
                      (s1\<lparr>error := Some (''Processing failed: '' @ errorMessage err)\<rparr>,
                       w1\<lparr>console_errors := console_errors w1 @ [err]\<rparr>)
                  | Inr _ \<Rightarrow> (s1, w1))
           in (s2\<lparr>isLoading := False, progressMessage := []\<rparr>, w2)))"

text \<open>The state of \<open>App\<close> when it is mounted.\<close>

definition initial_state :: app_state where
  "initial_state =
     \<lparr>inputAudioFile = None, inputAudioUrl = None, transcript = Some [],
      outputAudioUrl = None, isLoading = False, progressMessage = [], error = None\<rparr>"


section \<open>Example inputs\<close>

text \<open>
  A file whose data URL carries the base64 text \<open>AAAA\<close>, and one that cannot be read;
  a world with an API key and a given provider; providers that answer the transcription
  with \<open>hello\<close> and the synthesis with the four PCM bytes \<open>01 00 02 00\<close>, with a
  response without candidates, with a network error, with text that is not base64, or
  with three bytes; a provider whose responses are empty; and the state of the
  application once the example file has been selected.
\<close>

definition example_file :: File where
  "example_file = \<lparr>file_type = ''audio/wav'', file_dataURL = Some ''data:audio/wav;base64,AAAA''\<rparr>"

definition world_with ::
  "(string \<Rightarrow> GenerateContentRequest \<Rightarrow> js_thrown + GenerateContentResponse) \<Rightarrow> world" where
  "world_with p =
     \<lparr>env_API_KEY = Some ''key'', provider = p, requests_sent = [], live_urls = [],
      next_url = 0, console_errors = []\<rparr>"

definition audio_response :: "string \<Rightarrow> GenerateContentResponse" where
  "audio_response base64Audio =
     \<lparr>response_text = None,
      response_candidates = Some [\<lparr>candidate_content = Some \<lparr>content_parts =
        Some [\<lparr>part_inlineData = Some \<lparr>inline_data = Some base64Audio\<rparr>\<rparr>]\<rparr>\<rparr>]\<rparr>"

definition text_response :: "string \<Rightarrow> GenerateContentResponse" where
  "text_response str = \<lparr>response_text = Some str, response_candidates = None\<rparr>"

definition empty_response :: GenerateContentResponse where
  "empty_response = \<lparr>response_text = None, response_candidates = None\<rparr>"

definition speaking_provider :: "string \<Rightarrow> GenerateContentRequest \<Rightarrow> js_thrown + GenerateContentResponse" where
  "speaking_provider apiKey request =
     (if request_config request = None then Inr (text_response ''hello'')
      else Inr (audio_response ''AQACAA==''))"

definition silent_provider :: "string \<Rightarrow> GenerateContentRequest \<Rightarrow> js_thrown + GenerateContentResponse" where
  "silent_provider apiKey request =
     (if request_config request = None then Inr (text_response ''hello'')
      else Inr empty_response)"

definition empty_provider :: "string \<Rightarrow> GenerateContentRequest \<Rightarrow> js_thrown + GenerateContentResponse" where
  "empty_provider apiKey request = Inr empty_response"

definition selected_state :: app_state where
  "selected_state = initial_state\<lparr>inputAudioFile := Some example_file, inputAudioUrl := Some (BlobUrl 0)\<rparr>"





section \<open>The six-bit groups of a byte sequence\<close>

text \<open>
  The numbers that \<open>base64_encode\<close> writes as characters of the alphabet, and the
  padding it appends (lemma \<open>base64_encode_eq\<close>).
\<close>

fun sextets_of :: "byte list \<Rightarrow> nat list" where
  "sextets_of (x # y # z # rest) =
     (let n = unat x * 65536 + unat y * 256 + unat z
      in [n div 262144, n div 4096 mod 64, n div 64 mod 64, n mod 64]) @ sextets_of rest"
| "sextets_of [x, y] =
     (let n = (unat x * 256 + unat y) * 4 in [n div 4096, n div 64 mod 64, n mod 64])"
| "sextets_of [x] = (let n = unat x * 16 in [n div 64, n mod 64])"
| "sextets_of [] = []"

fun padding_of :: "byte list \<Rightarrow> string" where
  "padding_of (x # y # z # rest) = padding_of rest"
| "padding_of [x, y] = ''=''"
| "padding_of [x] = ''==''"
| "padding_of [] = []"

section \<open>The header written by createWavBlob\<close>

text \<open>
  The 44 bytes that the thirteen writes of \<open>createWavBlob\<close> leave in the header, for a
  data size, a sample rate and a channel count (lemma \<open>createWavBlob_even\<close>).
\<close>

definition wav_header :: "int \<Rightarrow> int \<Rightarrow> int \<Rightarrow> byte list" where
  "wav_header dataSize sampleRate numChannels =
    [0x52, 0x49, 0x46, 0x46,
     word_of_int (36 + dataSize), word_of_int ((36 + dataSize) div 256),
     word_of_int ((36 + dataSize) div 65536), word_of_int ((36 + dataSize) div 16777216),
     0x57, 0x41, 0x56, 0x45,
     0x66, 0x6d, 0x74, 0x20,
     16, 0, 0, 0,
     1, 0,
     word_of_int numChannels, word_of_int (numChannels div 256),
     word_of_int sampleRate, word_of_int (sampleRate div 256),
     word_of_int (sampleRate div 65536), word_of_int (sampleRate div 16777216),
     word_of_int (sampleRate * (numChannels * 2)), word_of_int (sampleRate * (numChannels * 2) div 256),
     word_of_int (sampleRate * (numChannels * 2) div 65536), word_of_int (sampleRate * (numChannels * 2) div 16777216),
     word_of_int (numChannels * 2), word_of_int (numChannels * 2 div 256),
     16, 0,
     0x64, 0x61, 0x74, 0x61,
     word_of_int dataSize, word_of_int (dataSize div 256),
     word_of_int (dataSize div 65536), word_of_int (dataSize div 16777216)]"

section \<open>Properties of createWavBlob\<close>

lemma and_then_Inr [simp]: "and_then (Inr x) f = f x"
  by (simp add: and_then_def)

lemma and_then_Inl [simp]: "and_then (Inl e) f = Inl e"
  by (simp add: and_then_def)

lemma and_then_weak_cong: "r = r' \<Longrightarrow> and_then r f = and_then r' f"
  by simp

declare copy_loop.simps [simp del]

lemma copy_loop_copies:
  "length dataView = length pcmData \<Longrightarrow> i \<le> length pcmData \<Longrightarrow> take i dataView = take i pcmData \<Longrightarrow>
   copy_loop i pcmData dataView = Inr pcmData"
proof (induction i pcmData dataView rule: copy_loop.induct)
  case (1 i pcmData dataView)
  show ?case
  proof (cases "i < length pcmData")
    case True
    have s: "setUint8 i (uint (pcmData ! i)) dataView = Inr (dataView[i := pcmData ! i])"
      using True 1(2) by (simp add: setUint8_def)
    have t: "take (Suc i) (dataView[i := pcmData ! i]) = take (Suc i) pcmData"
      using True 1(2) 1(4) by (simp add: take_Suc_conv_app_nth)
    have "copy_loop (Suc i) pcmData (dataView[i := pcmData ! i]) = Inr pcmData"
      using 1(1)[OF True] True 1(2) t by simp
    then show ?thesis using True s by (subst copy_loop.simps) simp
  next
    case False
    then have "i = length pcmData" using 1(3) by simp
    then have "dataView = pcmData" using 1(2) 1(4) by simp
    then show ?thesis using False by (subst copy_loop.simps) simp
  qed
qed

lemma copy_loop_0: "copy_loop 0 pcmData (replicate (length pcmData) 0) = Inr pcmData"
  by (rule copy_loop_copies) simp_all

lemma replicate_44: "replicate 44 (x::byte) = [x,x,x,x,x,x,x,x,x,x,x,x,x,x,x,x,x,x,x,x,x,x,x,x,x,x,x,x,x,x,x,x,x,x,x,x,x,x,x,x,x,x,x,x]"
  by (simp add: eval_nat_numeral)

lemma createWavBlob_even:
  assumes "even (length pcmData)"
  shows "createWavBlob pcmData sampleRate numChannels =
    Inr \<lparr>blob_bytes = wav_header (int (length pcmData)) sampleRate numChannels @ pcmData, blob_type = ''audio/wav''\<rparr>"
proof -
  have i16: "Int16Array pcmData = Inr pcmData"
    using assms by (simp add: Int16Array_def)
  have ds: "int16_length pcmData * (16 div 8) = int (length pcmData)"
    using assms by (auto simp: int16_length_def elim: evenE)
  show ?thesis
    unfolding createWavBlob_def copy_loop_0 and_then_Inr i16 Let_def ds replicate_44
    by (simp add: setUint32_def setUint16_def wav_header_def cong: and_then_weak_cong)
qed



lemma uint_byte: "uint (word_of_int v :: byte) = v mod 256"
  by (simp add: uint_word_of_int)

lemma le16_mod: "v mod 256 + 256 * ((v div 256) mod 256) = v mod 65536" for v :: int
proof -
  have "v mod (256 * 256) = 256 * (v div 256 mod 256) + v mod 256"
    by (rule zmod_zmult2_eq) simp
  then show ?thesis by simp
qed

lemma le32_mod:
  "v mod 256 + 256 * ((v div 256) mod 256) + 65536 * ((v div 65536) mod 256)
     + 16777216 * ((v div 16777216) mod 256) = v mod 4294967296" for v :: int
proof -
  have "v mod (65536 * 65536) = 65536 * (v div 65536 mod 65536) + v mod 65536"
    by (rule zmod_zmult2_eq) simp
  then have a: "v mod 4294967296 = 65536 * (v div 65536 mod 65536) + v mod 65536"
    by simp
  have "v div 65536 div 256 = v div (65536 * 256)"
    by (rule zdiv_zmult2_eq[symmetric]) simp
  then have c: "v div 65536 div 256 = v div 16777216"
    by simp
  have b: "v div 65536 mod 65536 = (v div 65536) mod 256 + 256 * ((v div 16777216) mod 256)"
    using le16_mod[of "v div 65536"] by (simp only: c)
  have d: "v mod 65536 = v mod 256 + 256 * ((v div 256) mod 256)"
    by (simp only: le16_mod)
  have lin: "X = 65536 * Y + L \<Longrightarrow> Y = c + 256 * e \<Longrightarrow> L = a + 256 * b' \<Longrightarrow>
      a + 256 * b' + 65536 * c + 16777216 * e = X" for X Y L a b' c e :: int
    by simp
  show ?thesis by (rule lin[OF a b d])
qed

lemma length_wav_header: "length (wav_header d s n) = 44"
  by (simp add: wav_header_def)

lemma le_uint16_eq:
  "bs ! off = word_of_int v \<Longrightarrow> bs ! (off + 1) = word_of_int (v div 256) \<Longrightarrow>
   le_uint16 bs off = v mod 65536"
  by (simp only: le_uint16_def uint_byte le16_mod)

lemma le_uint32_eq:
  "bs ! off = word_of_int v \<Longrightarrow> bs ! (off + 1) = word_of_int (v div 256) \<Longrightarrow>
   bs ! (off + 2) = word_of_int (v div 65536) \<Longrightarrow> bs ! (off + 3) = word_of_int (v div 16777216) \<Longrightarrow>
   le_uint32 bs off = v mod 4294967296"
  by (simp only: le_uint32_def uint_byte le32_mod)

lemma wav_numChannels: "le_uint16 (wav_header d s n @ p) 22 = n mod 65536"
  by (rule le_uint16_eq) (simp_all add: wav_header_def)

lemma wav_blockAlign: "le_uint16 (wav_header d s n @ p) 32 = (n * 2) mod 65536"
  by (rule le_uint16_eq) (simp_all add: wav_header_def)

lemma wav_format: "le_uint16 (wav_header d s n @ p) 20 = 1"
  by (simp add: le_uint16_def wav_header_def)

lemma wav_bitsPerSample: "le_uint16 (wav_header d s n @ p) 34 = 16"
  by (simp add: le_uint16_def wav_header_def)

lemma wav_riff_size: "le_uint32 (wav_header d s n @ p) 4 = (36 + d) mod 4294967296"
  by (rule le_uint32_eq) (simp_all add: wav_header_def)

lemma wav_fmt_size: "le_uint32 (wav_header d s n @ p) 16 = 16"
  by (simp add: le_uint32_def wav_header_def)

lemma wav_sampleRate: "le_uint32 (wav_header d s n @ p) 24 = s mod 4294967296"
  by (rule le_uint32_eq) (simp_all add: wav_header_def)

lemma wav_byteRate: "le_uint32 (wav_header d s n @ p) 28 = (s * (n * 2)) mod 4294967296"
  by (rule le_uint32_eq) (simp_all add: wav_header_def)

lemma wav_data_size: "le_uint32 (wav_header d s n @ p) 40 = d mod 4294967296"
  by (rule le_uint32_eq) (simp_all add: wav_header_def)

lemma wav_ascii:
  "ascii_at (wav_header d s n @ p) 0 4 = ''RIFF''"
  "ascii_at (wav_header d s n @ p) 8 4 = ''WAVE''"
  "ascii_at (wav_header d s n @ p) 12 4 = ''fmt ''"
  "ascii_at (wav_header d s n @ p) 36 4 = ''data''"
  by (simp_all add: ascii_at_def wav_header_def char_of_def bit_0)

lemma wav_payload: "drop 44 (wav_header d s n @ p) = p"
  by (simp add: length_wav_header)

lemma le_uint16_low_byte:
  assumes "le_uint16 bs off = v" and "v < 256"
  shows "bs ! off = word_of_int v"
proof -
  have a: "0 \<le> uint (bs ! off)" and b: "0 \<le> uint (bs ! (off + 1))"
    by simp_all
  have "uint (bs ! off) + 256 * uint (bs ! (off + 1)) < 256"
    using assms by (simp add: le_uint16_def)
  then have "uint (bs ! (off + 1)) = 0"
    using a b by linarith
  then have "uint (bs ! off) = v"
    using assms(1) by (simp add: le_uint16_def)
  then show ?thesis
    by (metis word_of_int_uint)
qed

text \<open>
  C1 (as amended). For every PCM byte sequence of even length, with the sample rate, the
  channel count, the block align, the byte rate and \<open>36 + len\<close> each within the range
  of its header field, \<open>createWavBlob\<close> returns \<open>44 + len\<close> bytes laid out as the
  canonical header followed by the payload, byte for byte.
\<close>

theorem createWavBlob_layout:
  assumes "even (length P)"
    and "36 + int (length P) < 4294967296"
    and "0 \<le> sampleRate" and "sampleRate < 4294967296"
    and "0 \<le> numChannels" and "numChannels * 2 < 65536"
    and "sampleRate * numChannels * 2 < 4294967296"
  shows "\<exists>out. createWavBlob P sampleRate numChannels
             = Inr \<lparr>blob_bytes = out, blob_type = ''audio/wav''\<rparr>
    \<and> length out = 44 + length P
    \<and> ascii_at out 0 4 = ''RIFF''
    \<and> le_uint32 out 4 = 36 + int (length P)
    \<and> ascii_at out 8 4 = ''WAVE''
    \<and> ascii_at out 12 4 = ''fmt ''
    \<and> le_uint32 out 16 = 16
    \<and> le_uint16 out 20 = 1
    \<and> le_uint16 out 22 = numChannels
    \<and> le_uint32 out 24 = sampleRate
    \<and> le_uint32 out 28 = sampleRate * numChannels * 2
    \<and> le_uint16 out 32 = numChannels * 2
    \<and> le_uint16 out 34 = 16
    \<and> ascii_at out 36 4 = ''data''
    \<and> le_uint32 out 40 = int (length P)
    \<and> drop 44 out = P"
proof -
  let ?out = "wav_header (int (length P)) sampleRate numChannels @ P"
  have r: "createWavBlob P sampleRate numChannels
             = Inr \<lparr>blob_bytes = ?out, blob_type = ''audio/wav''\<rparr>"
    using assms(1) by (rule createWavBlob_even)
  have len: "length ?out = 44 + length P"
    by (simp add: length_wav_header)
  have riff: "le_uint32 ?out 4 = 36 + int (length P)"
    using assms(2) by (simp add: wav_riff_size)
  have ch: "le_uint16 ?out 22 = numChannels"
    using assms(5,6) by (simp add: wav_numChannels)
  have sr: "le_uint32 ?out 24 = sampleRate"
    using assms(3,4) by (simp add: wav_sampleRate)
  have nn: "0 \<le> sampleRate * numChannels"
    using assms(3,5) by simp
  have "sampleRate * (numChannels * 2) = sampleRate * numChannels * 2"
    by simp
  moreover have "0 \<le> sampleRate * numChannels * 2"
    using nn by simp
  ultimately have br: "le_uint32 ?out 28 = sampleRate * numChannels * 2"
    using assms(7) by (simp only: wav_byteRate mod_pos_pos_trivial)
  have ba: "le_uint16 ?out 32 = numChannels * 2"
    using assms(5,6) by (simp add: wav_blockAlign)
  have ds: "le_uint32 ?out 40 = int (length P)"
    using assms(2) by (simp add: wav_data_size)
  show ?thesis
    using r len riff ch sr br ba ds wav_ascii[of "int (length P)" sampleRate numChannels P]
      wav_fmt_size[of "int (length P)" sampleRate numChannels P]
      wav_format[of "int (length P)" sampleRate numChannels P]
      wav_bitsPerSample[of "int (length P)" sampleRate numChannels P]
      wav_payload[of "int (length P)" sampleRate numChannels P]
    by blast
qed

text \<open>The example of the specification: four bytes at 24000 Hz, one channel.\<close>

theorem createWavBlob_layout_witness:
  "even (length [0x01, 0x00, 0x02, 0x00 :: byte])
   \<and> (\<exists>out. createWavBlob [0x01, 0x00, 0x02, 0x00] 24000 1
               = Inr \<lparr>blob_bytes = out, blob_type = ''audio/wav''\<rparr>
         \<and> length out = 48
         \<and> out ! 32 = 2
         \<and> le_uint16 out 32 = 2
         \<and> le_uint32 out 24 = 24000
         \<and> drop 44 out = [0x01, 0x00, 0x02, 0x00])"
proof -
  have "\<exists>out. createWavBlob [0x01, 0x00, 0x02, 0x00] 24000 1
               = Inr \<lparr>blob_bytes = out, blob_type = ''audio/wav''\<rparr>
         \<and> length out = 44 + length [0x01, 0x00, 0x02, 0x00 :: byte]
         \<and> ascii_at out 0 4 = ''RIFF''
         \<and> le_uint32 out 4 = 36 + int (length [0x01, 0x00, 0x02, 0x00 :: byte])
         \<and> ascii_at out 8 4 = ''WAVE''
         \<and> ascii_at out 12 4 = ''fmt ''
         \<and> le_uint32 out 16 = 16
         \<and> le_uint16 out 20 = 1
         \<and> le_uint16 out 22 = 1
         \<and> le_uint32 out 24 = 24000
         \<and> le_uint32 out 28 = 24000 * 1 * 2
         \<and> le_uint16 out 32 = 1 * 2
         \<and> le_uint16 out 34 = 16
         \<and> ascii_at out 36 4 = ''data''
         \<and> le_uint32 out 40 = int (length [0x01, 0x00, 0x02, 0x00 :: byte])
         \<and> drop 44 out = [0x01, 0x00, 0x02, 0x00]"
    by (rule createWavBlob_layout) simp_all
  then obtain out where o: "createWavBlob [0x01, 0x00, 0x02, 0x00] 24000 1
               = Inr \<lparr>blob_bytes = out, blob_type = ''audio/wav''\<rparr>"
      "length out = 48" "le_uint16 out 32 = 2" "le_uint32 out 24 = 24000"
      "drop 44 out = [0x01, 0x00, 0x02, 0x00]"
    by auto
  have "out ! 32 = word_of_int 2"
    using o(3) by (rule le_uint16_low_byte) simp
  then show ?thesis
    using o by auto
qed

text \<open>
  Without the ranges the claim fails: at sample rate \<open>2^31\<close> and one channel the byte
  rate \<open>2^32\<close> does not fit bytes 28-31, which hold 0.
\<close>

theorem createWavBlob_layout_counterexample:
  "\<not> isl (createWavBlob [] 2147483648 1)
   \<and> le_uint32 (blob_bytes (projr (createWavBlob [] 2147483648 1))) 28 = 0
   \<and> le_uint32 (blob_bytes (projr (createWavBlob [] 2147483648 1))) 28 \<noteq> 2147483648 * 1 * 2"
  using wav_byteRate[of 0 2147483648 1 "[]"] by (simp add: createWavBlob_even)

text \<open>
  C5. Encoding the empty PCM sequence succeeds, whatever the sample rate and the channel
  count, and gives exactly 44 bytes: the chunk identifiers \<open>RIFF\<close>, \<open>WAVE\<close>,
  \<open>fmt \<close> and \<open>data\<close> in their places, the RIFF chunk size 36, the format chunk
  size 16, the format tag 1, 16 bits per sample and the data size 0; and the channel
  count, the sample rate, the byte rate and the block align in their fields whenever
  they fit them.
\<close>

theorem createWavBlob_empty:
  "\<exists>out. createWavBlob [] sampleRate numChannels
            = Inr \<lparr>blob_bytes = out, blob_type = ''audio/wav''\<rparr>
    \<and> length out = 44
    \<and> ascii_at out 0 4 = ''RIFF''
    \<and> le_uint32 out 4 = 36
    \<and> ascii_at out 8 4 = ''WAVE''
    \<and> ascii_at out 12 4 = ''fmt ''
    \<and> le_uint32 out 16 = 16
    \<and> le_uint16 out 20 = 1
    \<and> le_uint16 out 34 = 16
    \<and> ascii_at out 36 4 = ''data''
    \<and> le_uint32 out 40 = 0
    \<and> (0 \<le> sampleRate \<and> sampleRate < 4294967296 \<and> 0 \<le> numChannels \<and> numChannels * 2 < 65536
         \<and> sampleRate * numChannels * 2 < 4294967296 \<longrightarrow>
           le_uint16 out 22 = numChannels
         \<and> le_uint32 out 24 = sampleRate
         \<and> le_uint32 out 28 = sampleRate * numChannels * 2
         \<and> le_uint16 out 32 = numChannels * 2)"
proof -
  let ?out = "wav_header 0 sampleRate numChannels @ []"
  have "createWavBlob [] sampleRate numChannels
          = Inr \<lparr>blob_bytes = ?out, blob_type = ''audio/wav''\<rparr>"
    using createWavBlob_even[of "[]" sampleRate numChannels] by simp
  moreover have "length ?out = 44"
    by (simp add: length_wav_header)
  moreover have "le_uint32 ?out 4 = 36"
    by (simp only: wav_riff_size) simp
  moreover have "le_uint32 ?out 40 = 0"
    by (simp only: wav_data_size) simp
  moreover have "le_uint16 ?out 22 = numChannels \<and> le_uint32 ?out 24 = sampleRate
      \<and> le_uint32 ?out 28 = sampleRate * numChannels * 2 \<and> le_uint16 ?out 32 = numChannels * 2"
    if r: "0 \<le> sampleRate \<and> sampleRate < 4294967296 \<and> 0 \<le> numChannels \<and> numChannels * 2 < 65536
         \<and> sampleRate * numChannels * 2 < 4294967296"
  proof -
    have ch: "le_uint16 ?out 22 = numChannels"
      using r wav_numChannels[of 0 sampleRate numChannels "[]"] by simp
    have sr: "le_uint32 ?out 24 = sampleRate"
      using r wav_sampleRate[of 0 sampleRate numChannels "[]"] by simp
    have ba: "le_uint16 ?out 32 = numChannels * 2"
      using r wav_blockAlign[of 0 sampleRate numChannels "[]"] by simp
    have "sampleRate * (numChannels * 2) = sampleRate * numChannels * 2"
      by simp
    moreover have "0 \<le> sampleRate * numChannels * 2"
      using r by simp
    ultimately have br: "le_uint32 ?out 28 = sampleRate * numChannels * 2"
      using r wav_byteRate[of 0 sampleRate numChannels "[]"] by (simp only: mod_pos_pos_trivial)
    show ?thesis using ch sr ba br by simp
  qed
  ultimately show ?thesis
    using wav_ascii[of 0 sampleRate numChannels "[]"] wav_fmt_size[of 0 sampleRate numChannels "[]"]
      wav_format[of 0 sampleRate numChannels "[]"] wav_bitsPerSample[of 0 sampleRate numChannels "[]"]
    by blast
qed

theorem createWavBlob_empty_witness:
  "\<exists>out. createWavBlob [] 24000 1 = Inr \<lparr>blob_bytes = out, blob_type = ''audio/wav''\<rparr>
    \<and> length out = 44 \<and> le_uint32 out 4 = 36 \<and> le_uint32 out 40 = 0
    \<and> le_uint16 out 20 = 1 \<and> le_uint16 out 22 = 1 \<and> le_uint32 out 24 = 24000
    \<and> le_uint32 out 28 = 48000 \<and> le_uint16 out 32 = 2 \<and> le_uint16 out 34 = 16"
  using createWavBlob_empty[of 24000 1] by auto

text \<open>
  C6 (as amended). For an even-length payload, a sample rate in \<open>0 .. 2^32 - 1\<close> and a
  channel count in \<open>0 .. 2^16 - 1\<close>, the header fields at bytes 24-27, 22-23 and 34-35
  of the encoder's output read back as the sample rate, the channel count and 16.
\<close>

theorem createWavBlob_header_roundtrip:
  assumes "even (length P)"
    and "0 \<le> sampleRate" and "sampleRate < 4294967296"
    and "0 \<le> numChannels" and "numChannels < 65536"
  shows "\<exists>out. createWavBlob P sampleRate numChannels
             = Inr \<lparr>blob_bytes = out, blob_type = ''audio/wav''\<rparr>
    \<and> (le_uint32 out 24, le_uint16 out 22, le_uint16 out 34) = (sampleRate, numChannels, 16)"
proof -
  let ?out = "wav_header (int (length P)) sampleRate numChannels @ P"
  have "createWavBlob P sampleRate numChannels
          = Inr \<lparr>blob_bytes = ?out, blob_type = ''audio/wav''\<rparr>"
    using assms(1) by (rule createWavBlob_even)
  moreover have "le_uint32 ?out 24 = sampleRate"
    using assms(2,3) by (simp add: wav_sampleRate)
  moreover have "le_uint16 ?out 22 = numChannels"
    using assms(4,5) by (simp add: wav_numChannels)
  moreover have "le_uint16 ?out 34 = 16"
    by (rule wav_bitsPerSample)
  ultimately show ?thesis by blast
qed

theorem createWavBlob_header_roundtrip_witness:
  "even (length [0x01, 0x00, 0x02, 0x00 :: byte]) \<and> (0::int) \<le> 44100 \<and> (44100::int) < 4294967296
   \<and> (0::int) \<le> 2 \<and> (2::int) < 65536
   \<and> (\<exists>out. createWavBlob [0x01, 0x00, 0x02, 0x00] 44100 2
               = Inr \<lparr>blob_bytes = out, blob_type = ''audio/wav''\<rparr>
         \<and> (le_uint32 out 24, le_uint16 out 22, le_uint16 out 34) = (44100, 2, 16))"
  using createWavBlob_header_roundtrip[of "[0x01, 0x00, 0x02, 0x00]" 44100 2] by simp

text \<open>
  Without the ranges the claim fails: a channel count of \<open>2^16\<close> reads back as 0.
\<close>

theorem createWavBlob_header_roundtrip_counterexample:
  "\<not> isl (createWavBlob [] 24000 65536)
   \<and> le_uint16 (blob_bytes (projr (createWavBlob [] 24000 65536))) 22 = 0
   \<and> le_uint16 (blob_bytes (projr (createWavBlob [] 24000 65536))) 22 \<noteq> 65536"
  using wav_numChannels[of 0 24000 65536 "[]"] by (simp add: createWavBlob_even)

text \<open>
  C9. On a PCM byte sequence of odd length \<open>createWavBlob\<close> throws the \<open>RangeError\<close>
  of the \<open>Int16Array\<close> constructor and produces no output; when the length is a
  multiple of \<open>2 * numChannels\<close> (bytes per sample times channels), it returns a blob.
\<close>

theorem createWavBlob_odd_length:
  "(odd (length pcmData) \<longrightarrow>
      (\<exists>message. createWavBlob pcmData sampleRate numChannels = Inl (RangeError message)))
   \<and> ((2 * numChannels) dvd int (length pcmData) \<longrightarrow>
      (\<exists>blob. createWavBlob pcmData sampleRate numChannels = Inr blob))"
proof (intro conjI impI)
  assume "odd (length pcmData)"
  then have "Int16Array pcmData = Inl (RangeError ''byte length of Int16Array should be a multiple of 2'')"
    by (simp add: Int16Array_def odd_iff_mod_2_eq_one)
  then show "\<exists>message. createWavBlob pcmData sampleRate numChannels = Inl (RangeError message)"
    by (simp add: createWavBlob_def copy_loop_0 cong: and_then_weak_cong)
next
  assume "(2 * numChannels) dvd int (length pcmData)"
  then have "2 dvd int (length pcmData)"
    by (rule dvd_mult_left)
  then have "even (length pcmData)"
    by simp
  then show "\<exists>blob. createWavBlob pcmData sampleRate numChannels = Inr blob"
    by (simp add: createWavBlob_even)
qed

theorem createWavBlob_odd_length_witness:
  "odd (length [0x01, 0x00, 0x02 :: byte])
   \<and> (\<exists>message. createWavBlob [0x01, 0x00, 0x02] 24000 1 = Inl (RangeError message))
   \<and> (2 * 1) dvd int (length [0x01, 0x00, 0x02, 0x00 :: byte])
   \<and> (\<exists>blob. createWavBlob [0x01, 0x00, 0x02, 0x00] 24000 1 = Inr blob)"
  using createWavBlob_odd_length[of "[0x01, 0x00, 0x02]" 24000 1]
    createWavBlob_odd_length[of "[0x01, 0x00, 0x02, 0x00]" 24000 1]
  by simp

section \<open>Properties of decode\<close>

declare decode_loop.simps [simp del]

lemma length_b64_alphabet: "length b64_alphabet = 64"
  by (simp add: b64_alphabet_def)

lemma distinct_b64_alphabet: "distinct b64_alphabet"
  by (simp add: b64_alphabet_def)

lemma index_of_None: "index_of c xs = None \<longleftrightarrow> c \<notin> set xs"
  by (induction xs) auto

lemma index_of_nth: "distinct xs \<Longrightarrow> i < length xs \<Longrightarrow> index_of (xs ! i) xs = Some i"
proof (induction xs arbitrary: i)
  case Nil
  then show ?case by simp
next
  case (Cons x xs)
  show ?case
  proof (cases i)
    case 0
    then show ?thesis by simp
  next
    case (Suc j)
    then have "xs ! j \<in> set xs" using Cons.prems by simp
    then have "xs ! j \<noteq> x" using Cons.prems by auto
    then show ?thesis using Suc Cons by simp
  qed
qed

lemma b64_value_char: "i < 64 \<Longrightarrow> b64_value (b64_char i) = Some i"
  unfolding b64_value_def b64_char_def
  by (rule index_of_nth) (simp_all add: distinct_b64_alphabet length_b64_alphabet)

lemma b64_char_in: "i < 64 \<Longrightarrow> b64_char i \<in> set b64_alphabet"
  by (simp add: b64_char_def length_b64_alphabet)

lemma b64_value_None: "b64_value c = None \<longleftrightarrow> c \<notin> set b64_alphabet"
  by (simp add: b64_value_def index_of_None)

lemma alphabet_not_whitespace: "c \<in> set b64_alphabet \<Longrightarrow> \<not> is_ascii_whitespace c"
  by (auto simp: b64_alphabet_def is_ascii_whitespace_def)

lemma alphabet_not_pad: "c \<in> set b64_alphabet \<Longrightarrow> c \<noteq> CHR ''=''"
  by (auto simp: b64_alphabet_def)

lemma pad_not_whitespace: "\<not> is_ascii_whitespace CHR ''=''"
  by (simp add: is_ascii_whitespace_def)

lemma div64_div64: "n div 64 div 64 = n div 4096" for n :: nat
  by (simp add: div_mult2_eq[symmetric])

lemma div4096_div64: "n div 4096 div 64 = n div 262144" for n :: nat
  by (simp add: div_mult2_eq[symmetric])

lemma split64: "n = (n div 64) * 64 + n mod 64" for n :: nat
  by simp

lemma recombine18:
  "(n div 4096) * 4096 + (n div 64 mod 64) * 64 + n mod 64 = n" for n :: nat
proof -
  have a: "n div 64 = (n div 4096) * 64 + n div 64 mod 64"
    using split64[of "n div 64"] by (simp only: div64_div64)
  have lin: "N = Q * 64 + r \<Longrightarrow> Q = H * 64 + m \<Longrightarrow> H * 4096 + m * 64 + r = N" for N Q r H m :: nat
    by simp
  show ?thesis by (rule lin[OF split64 a])
qed

lemma recombine24:
  "(n div 262144) * 262144 + (n div 4096 mod 64) * 4096 + (n div 64 mod 64) * 64 + n mod 64 = n"
  for n :: nat
proof -
  have a: "n div 4096 = (n div 262144) * 64 + n div 4096 mod 64"
    using split64[of "n div 4096"] by (simp only: div4096_div64)
  have lin: "H * 4096 + m * 64 + r = N \<Longrightarrow> H = T * 64 + h \<Longrightarrow>
      T * 262144 + h * 4096 + m * 64 + r = N" for N r H m T h :: nat
    by simp
  show ?thesis by (rule lin[OF recombine18 a])
qed

lemma byte_eqI: "m mod 256 = unat (b::byte) \<Longrightarrow> of_nat m = b"
proof -
  assume "m mod 256 = unat b"
  then have "unat (of_nat m :: byte) = unat b"
    by (simp add: unat_of_nat)
  then show ?thesis by (simp only: word_unat_eq_iff[symmetric])
qed

lemma unat_byte_lt: "unat (b::byte) < 256"
  using unsigned_less[of b, where 'a = nat] by simp

lemma mod256_low: "r < 256 \<Longrightarrow> (q * 256 + r) mod 256 = r" for q r :: nat
  by simp

lemma three_bytes:
  fixes x y z :: byte
  defines "n \<equiv> unat x * 65536 + unat y * 256 + unat z"
  shows "of_nat (n div 65536) = x" "of_nat (n div 256) = y" "of_nat n = z"
proof -
  have n: "n = (unat x * 256 + unat y) * 256 + unat z"
    by (simp add: n_def)
  have d1: "n div 256 = unat x * 256 + unat y"
    unfolding n using unat_byte_lt[of z] by simp
  have "n div 65536 = n div 256 div 256"
    by (simp add: div_mult2_eq[symmetric])
  then have d2: "n div 65536 = unat x"
    unfolding d1 using unat_byte_lt[of y] by simp
  show "of_nat (n div 65536) = x" by (simp add: d2)
  show "of_nat (n div 256) = y"
    by (rule byte_eqI) (simp add: d1 unat_byte_lt)
  have "((unat x * 256 + unat y) * 256 + unat z) mod 256 = unat z"
    by (rule mod256_low) (rule unat_byte_lt)
  then show "of_nat n = z"
    by (intro byte_eqI) (simp only: n)
qed

lemma two_bytes:
  fixes x y :: byte
  defines "m \<equiv> unat x * 256 + unat y"
  shows "of_nat (m div 256) = x" "of_nat m = y"
proof -
  show "of_nat (m div 256) = x"
    unfolding m_def using unat_byte_lt[of y] by simp
  show "of_nat m = y"
    by (rule byte_eqI) (simp add: m_def unat_byte_lt)
qed

lemma base64_encode_eq: "base64_encode B = map b64_char (sextets_of B) @ padding_of B"
  by (induction B rule: base64_encode.induct) (simp_all add: Let_def)

lemma sextets_of_lt: "s \<in> set (sextets_of B) \<Longrightarrow> s < 64"
proof (induction B rule: sextets_of.induct)
  case (1 x y z rest)
  have "unat x * 65536 + unat y * 256 + unat z < 16777216"
    using unat_byte_lt[of x] unat_byte_lt[of y] unat_byte_lt[of z] by linarith
  then have "(unat x * 65536 + unat y * 256 + unat z) div 262144 < 64"
    by (simp add: less_mult_imp_div_less)
  with 1 show ?case by (auto simp: Let_def)
next
  case (2 x y)
  have "(unat x * 256 + unat y) * 4 < 262144"
    using unat_byte_lt[of x] unat_byte_lt[of y] by simp
  then have "(unat x * 256 + unat y) * 4 div 4096 < 64"
    by (simp add: less_mult_imp_div_less)
  with 2 show ?case by (auto simp: Let_def)
next
  case (3 x)
  have "unat x * 16 < 4096"
    using unat_byte_lt[of x] by linarith
  then have "unat x * 16 div 64 < 64"
    by (simp add: less_mult_imp_div_less)
  with 3 show ?case by (auto simp: Let_def)
next
  case 4
  then show ?case by simp
qed

lemma padding_cases:
  "(padding_of B = [] \<and> length (sextets_of B) mod 4 = 0)
   \<or> (padding_of B = ''='' \<and> length (sextets_of B) mod 4 = 3)
   \<or> (padding_of B = ''=='' \<and> length (sextets_of B) mod 4 = 2)"
  by (induction B rule: sextets_of.induct) (simp_all add: Let_def)

lemma decode_sextets_of: "decode_sextets (sextets_of B) = B"
proof (induction B rule: sextets_of.induct)
  case (1 x y z rest)
  let ?n = "unat x * 65536 + unat y * 256 + unat z"
  have "decode_sextets (sextets_of (x # y # z # rest))
      = [of_nat (?n div 65536), of_nat (?n div 256), of_nat ?n] @ decode_sextets (sextets_of rest)"
    by (simp add: Let_def recombine24)
  then show ?case
    by (simp only: three_bytes 1) simp
next
  case (2 x y)
  let ?m = "unat x * 256 + unat y"
  have "(?m * 4 div 4096) * 4096 + (?m * 4 div 64 mod 64) * 64 + ?m * 4 mod 64 = ?m * 4"
    by (rule recombine18)
  then have "decode_sextets (sextets_of [x, y]) = [of_nat (?m div 256), of_nat ?m]"
    by (simp add: Let_def)
  then show ?case
    by (simp only: two_bytes)
next
  case (3 x)
  have "(unat x * 16 div 64) * 64 + unat x * 16 mod 64 = unat x * 16"
    by (rule div_mult_mod_eq)
  then have "((unat x * 16 div 64) * 64 + unat x * 16 mod 64) div 16 = unat x"
    by simp
  then have "decode_sextets (sextets_of [x]) = [of_nat (unat x)]"
    by (simp only: sextets_of.simps decode_sextets.simps Let_def)
  then show ?case by simp
next
  case 4
  then show ?case by simp
qed

lemma strip_padding_none:
  assumes "CHR ''='' \<notin> set body" and "length body mod 4 = 0"
  shows "strip_padding body = body"
proof -
  have "drop n body \<noteq> CHR ''='' # rest" for n rest
  proof
    assume "drop n body = CHR ''='' # rest"
    then have "CHR ''='' \<in> set (drop n body)" by simp
    then show False using assms(1) by (meson in_set_dropD)
  qed
  then show ?thesis by (simp add: strip_padding_def)
qed

lemma strip_padding_one:
  assumes "CHR ''='' \<notin> set body" and "length body mod 4 = 3"
  shows "strip_padding (body @ ''='') = body"
proof -
  have ne: "body \<noteq> []" using assms(2) by auto
  have len: "(length body + 1) mod 4 = 0"
    using assms(2) by presburger
  obtain b l where bl: "body = b @ [l]"
    using ne by (metis append_butlast_last_id)
  have "l \<noteq> CHR ''=''"
    using assms(1) bl by auto
  then have "drop (length body - 1) (body @ ''='') \<noteq> ''==''"
    by (simp add: bl)
  then show ?thesis
    using len by (simp add: strip_padding_def)
qed

lemma strip_padding_two:
  assumes "length body mod 4 = 2"
  shows "strip_padding (body @ ''=='') = body"
proof -
  have len: "(length body + 2) mod 4 = 0"
    using assms by presburger
  then show ?thesis
    by (simp add: strip_padding_def)
qed

lemma those_map_Some: "(\<And>x. x \<in> set xs \<Longrightarrow> f x = Some (g x)) \<Longrightarrow> those (map f xs) = Some (map g xs)"
  by (induction xs) simp_all

lemma those_None_iff: "those xs = None \<longleftrightarrow> None \<in> set xs"
  by (induction xs) (auto split: option.splits)

lemma decode_loop_map:
  "length bytes = length str \<Longrightarrow> i \<le> length str \<Longrightarrow>
   take i bytes = map (\<lambda>c. of_nat (of_char c)) (take i str) \<Longrightarrow>
   decode_loop i str bytes = map (\<lambda>c. of_nat (of_char c)) str"
proof (induction i str bytes rule: decode_loop.induct)
  case (1 i str bytes)
  show ?case
  proof (cases "i < length str")
    case True
    let ?bytes = "bytes[i := of_nat (charCodeAt str i)]"
    have t: "take (Suc i) ?bytes = map (\<lambda>c. of_nat (of_char c)) (take (Suc i) str)"
      using True 1(2) 1(4) by (simp add: take_Suc_conv_app_nth charCodeAt_def)
    have "decode_loop (Suc i) str ?bytes = map (\<lambda>c. of_nat (of_char c)) str"
      using 1(1)[OF True] True 1(2) t by simp
    then show ?thesis using True by (subst decode_loop.simps) simp
  next
    case False
    then have "i = length str" using 1(3) by simp
    then have "bytes = map (\<lambda>c. of_nat (of_char c)) str" using 1(2) 1(4) by simp
    then show ?thesis using False by (subst decode_loop.simps) simp
  qed
qed

lemma decode_loop_0:
  "decode_loop 0 str (replicate (length str) 0) = map (\<lambda>c. of_nat (of_char c)) str"
  by (rule decode_loop_map) simp_all

lemma byte_mod256: "(of_nat (unat (b::byte) mod 256) :: byte) = b"
  by (simp add: unat_byte_lt)

lemma decode_eq:
  "decode s = (case forgiving_base64_decode s of
                 None \<Rightarrow> Inl (InvalidCharacterError ''The string to be decoded is not correctly encoded.'')
               | Some bytes \<Rightarrow> Inr bytes)"
  by (simp add: decode_def atob_def decode_loop_0 byte_mod256 comp_def split: option.split)

lemma filter_base64_encode:
  "filter (\<lambda>c. \<not> is_ascii_whitespace c) (base64_encode B) = base64_encode B"
proof -
  have "\<not> is_ascii_whitespace c" if "c \<in> set (base64_encode B)" for c
  proof -
    from that have "c \<in> b64_char ` set (sextets_of B) \<or> c \<in> set (padding_of B)"
      by (auto simp: base64_encode_eq)
    moreover have "c = CHR ''=''" if "c \<in> set (padding_of B)"
      using that padding_cases[of B] by auto
    ultimately show ?thesis
      using sextets_of_lt b64_char_in alphabet_not_whitespace pad_not_whitespace by blast
  qed
  then show ?thesis by simp
qed

lemma body_no_pad: "CHR ''='' \<notin> set (map b64_char (sextets_of B))"
proof
  assume "CHR ''='' \<in> set (map b64_char (sextets_of B))"
  then obtain i where "i \<in> set (sextets_of B)" and "b64_char i = CHR ''=''"
    by auto
  then show False
    using sextets_of_lt[of i B] b64_char_in[of i] alphabet_not_pad[of "b64_char i"] by simp
qed

lemma strip_padding_base64_encode:
  "strip_padding (base64_encode B) = map b64_char (sextets_of B)"
  using padding_cases[of B] body_no_pad[of B]
  by (auto simp: base64_encode_eq strip_padding_none strip_padding_one strip_padding_two)

lemma forgiving_base64_decode_encode: "forgiving_base64_decode (base64_encode B) = Some B"
proof -
  let ?body = "map b64_char (sextets_of B)"
  have len: "length ?body mod 4 \<noteq> 1"
    using padding_cases[of B] by auto
  have "those (map b64_value ?body) = Some (sextets_of B)"
    using those_map_Some[of "sextets_of B" "b64_value \<circ> b64_char" id]
    by (simp add: b64_value_char sextets_of_lt)
  then show ?thesis
    using len
    by (simp add: forgiving_base64_decode_def filter_base64_encode strip_padding_base64_encode
        decode_sextets_of)
qed

lemma forgiving_base64_decode_None:
  "forgiving_base64_decode s = None \<longleftrightarrow>
     (let d = strip_padding (filter (\<lambda>c. \<not> is_ascii_whitespace c) s)
      in length d mod 4 = 1 \<or> \<not> set d \<subseteq> set b64_alphabet)"
proof -
  have "those (map b64_value d) = None \<longleftrightarrow> \<not> set d \<subseteq> set b64_alphabet" for d
  proof -
    have "None \<in> set (map b64_value d) \<longleftrightarrow> (\<exists>c \<in> set d. b64_value c = None)"
      by (metis (mono_tags, lifting) image_iff list.set_map)
    then show ?thesis
      by (auto simp: those_None_iff b64_value_None)
  qed
  then show ?thesis
    by (simp add: forgiving_base64_decode_def Let_def)
qed

text \<open>
  C7 (as amended). For every byte sequence \<open>B\<close>, \<open>decode\<close> applied to the RFC 4648
  encoding of \<open>B\<close> with padding gives \<open>B\<close> back. \<open>decode\<close> throws, and then always
  an \<open>InvalidCharacterError\<close>, exactly when the input, after its ASCII whitespace is
  removed and then (if the length is a multiple of four) one or two trailing \<open>=\<close>, has
  a length that leaves remainder one modulo four or contains a character outside the
  base64 alphabet. Whitespace and missing padding are therefore accepted.
\<close>

theorem decode_base64:
  "decode (base64_encode B) = Inr B
   \<and> ((\<exists>message. decode s = Inl (InvalidCharacterError message)) \<longleftrightarrow>
        (let d = strip_padding (filter (\<lambda>c. \<not> is_ascii_whitespace c) s)
         in length d mod 4 = 1 \<or> \<not> set d \<subseteq> set b64_alphabet))
   \<and> (isl (decode s) \<longleftrightarrow> (\<exists>message. decode s = Inl (InvalidCharacterError message)))"
proof (intro conjI)
  show "decode (base64_encode B) = Inr B"
    by (simp add: decode_eq forgiving_base64_decode_encode)
  show "(\<exists>message. decode s = Inl (InvalidCharacterError message)) \<longleftrightarrow>
        (let d = strip_padding (filter (\<lambda>c. \<not> is_ascii_whitespace c) s)
         in length d mod 4 = 1 \<or> \<not> set d \<subseteq> set b64_alphabet)"
    unfolding forgiving_base64_decode_None[symmetric]
    by (simp add: decode_eq split: option.split)
  show "isl (decode s) \<longleftrightarrow> (\<exists>message. decode s = Inl (InvalidCharacterError message))"
    by (simp add: decode_eq split: option.split)
qed

theorem decode_base64_witness:
  "decode (base64_encode [0x01, 0x00, 0x02, 0x00]) = Inr [0x01, 0x00, 0x02, 0x00]
   \<and> (\<exists>message. decode ''Y*Q='' = Inl (InvalidCharacterError message))
   \<and> (\<exists>message. decode ''YWJjZ'' = Inl (InvalidCharacterError message))"
  using decode_base64[of "[0x01, 0x00, 0x02, 0x00]" "''Y*Q=''"]
    decode_base64[of "[]" "''YWJjZ''"]
  by (simp add: is_ascii_whitespace_def strip_padding_def b64_alphabet_def)

text \<open>
  As stated the claim fails: a space is outside the base64 alphabet and \<open>YQ\<close> lacks
  its padding, and both inputs decode to the byte \<open>0x61\<close>.
\<close>

theorem decode_base64_counterexample:
  "CHR 0x20 \<in> set '' YQ =='' \<and> CHR 0x20 \<notin> set b64_alphabet
   \<and> decode '' YQ =='' = Inr [0x61]
   \<and> decode ''YQ'' = Inr [0x61]"
  by (simp add: decode_eq forgiving_base64_decode_def is_ascii_whitespace_def strip_padding_def
      b64_value_def b64_alphabet_def)

section \<open>Properties of the services\<close>

text \<open>
  \<open>generateTranscriptFromAudio\<close>, case by case: without a key it throws with no request
  sent; with a key it sends one request, throws what the provider call throws, and
  otherwise returns \<open>response.text\<close>, whatever that is.
\<close>

lemma generateTranscriptFromAudio_outcomes:
  "(env_API_KEY w = None \<or> env_API_KEY w = Some [] \<longrightarrow>
      generateTranscriptFromAudio base64AudioData mimeType w
        = (Inl (Error ''API_KEY environment variable not set''), w))
   \<and> (env_API_KEY w = Some apiKey \<and> apiKey \<noteq> [] \<longrightarrow>
        requests_sent (snd (generateTranscriptFromAudio base64AudioData mimeType w))
          = requests_sent w @ [transcript_request base64AudioData mimeType]
        \<and> (\<forall>e. provider w apiKey (transcript_request base64AudioData mimeType) = Inl e \<longrightarrow>
               fst (generateTranscriptFromAudio base64AudioData mimeType w) = Inl e)
        \<and> (\<forall>response. provider w apiKey (transcript_request base64AudioData mimeType) = Inr response \<longrightarrow>
               fst (generateTranscriptFromAudio base64AudioData mimeType w)
                 = Inr (response_text response)))"
  by (auto simp: generateTranscriptFromAudio_def getGenAI_def generateContent_def
      split: option.splits sum.splits prod.splits)

lemma transcript_with_key:
  assumes "env_API_KEY w = Some apiKey" and "apiKey \<noteq> []"
  shows "generateTranscriptFromAudio d m w
     = (map_sum id response_text (provider w apiKey (transcript_request d m)),
        w\<lparr>requests_sent := requests_sent w @ [transcript_request d m]\<rparr>)"
  using assms
  by (simp add: generateTranscriptFromAudio_def getGenAI_def generateContent_def split: sum.split)

lemma speech_with_key:
  assumes "env_API_KEY w = Some apiKey" and "apiKey \<noteq> []"
  shows "generateSpeechFromText t w
     = (map_sum id base64Audio_of (provider w apiKey (speech_request t)),
        w\<lparr>requests_sent := requests_sent w @ [speech_request t]\<rparr>)"
  using assms
  by (simp add: generateSpeechFromText_def getGenAI_def generateContent_def split: sum.split)


section \<open>Properties of handleProcessAudio\<close>

text \<open>
  C10. Without a selected file \<open>handleProcessAudio\<close> returns at once: the state
  (transcript, error, output URL, loading flag, progress message) and the world (no
  request sent, no object URL created or revoked, nothing logged) are unchanged.
\<close>

theorem handleProcessAudio_without_file:
  "inputAudioFile s = None \<Longrightarrow> handleProcessAudio s w = (s, w)"
  by (simp add: handleProcessAudio_def)

theorem handleProcessAudio_without_file_witness:
  "inputAudioFile initial_state = None
   \<and> handleProcessAudio initial_state (world_with speaking_provider)
       = (initial_state, world_with speaking_provider)
   \<and> requests_sent (snd (handleProcessAudio initial_state (world_with speaking_provider))) = []"
  using handleProcessAudio_without_file[of initial_state "world_with speaking_provider"]
  by (simp add: initial_state_def world_with_def)

lemma generateContent_world:
  "generateContent ai request w = (r, w') \<Longrightarrow>
   w' = w\<lparr>requests_sent := requests_sent w @ [request]\<rparr>"
  by (auto simp: generateContent_def)



lemma fileToBase64_example: "fileToBase64 example_file = Inr (Some ''AAAA'', ''audio/wav'')"
  by (simp add: fileToBase64_def example_file_def element_at_def)

lemma generateSpeechFromText_no_audio:
  assumes "getGenAI w = Inr ai" and "provider w ai (speech_request t) = Inr response"
  shows "generateSpeechFromText t w
          = (Inr (base64Audio_of response), w\<lparr>requests_sent := requests_sent w @ [speech_request t]\<rparr>)"
  using assms by (simp add: generateSpeechFromText_def generateContent_def)

text \<open>
  C2. When the file is read, the transcription returns and the synthesis returns no
  audio payload (absent, or the empty string), the run ends failed: the error is
  \<open>Processing failed: Failed to generate audio data.\<close>, which differs from the
  message of every failure whose thrown message is another text (a missing key, a
  transport error); the transcript of this run stays set; loading and progress are
  cleared and there is no output URL.
\<close>

theorem no_audio_fails_run:
  assumes "inputAudioFile s = Some file"
    and "fileToBase64 file = Inr (audioData, mimeType)"
    and "generateTranscriptFromAudio audioData mimeType w = (Inr generatedTranscript, w1)"
    and "generateSpeechFromText generatedTranscript w1 = (Inr synthesizedAudioData, w2)"
    and "synthesizedAudioData = None \<or> synthesizedAudioData = Some []"
  shows "error (fst (handleProcessAudio s w)) = Some ''Processing failed: Failed to generate audio data.''
    \<and> transcript (fst (handleProcessAudio s w)) = generatedTranscript
    \<and> isLoading (fst (handleProcessAudio s w)) = False
    \<and> progressMessage (fst (handleProcessAudio s w)) = []
    \<and> outputAudioUrl (fst (handleProcessAudio s w)) = None
    \<and> (\<forall>e. errorMessage e \<noteq> ''Failed to generate audio data.'' \<longrightarrow>
          error (fst (handleProcessAudio s w)) \<noteq> Some (''Processing failed: '' @ errorMessage e))"
proof -
  let ?s0 = "s\<lparr>isLoading := True, error := None, transcript := Some [], outputAudioUrl := None,
                progressMessage := ''Reading audio file...''\<rparr>"
  have "try_block file ?s0 w
      = (Inl (Error ''Failed to generate audio data.''),
         ?s0\<lparr>progressMessage := ''Generating transcript...'', transcript := generatedTranscript,
              progressMessage := ''Synthesizing audio...''\<rparr>, w2)"
    using assms(2-5) by (auto simp: try_block_def)
  then show ?thesis
    using assms(1) by (simp add: handleProcessAudio_def)
qed



lemmas example_defs = selected_state_def initial_state_def example_file_def world_with_def
  silent_provider_def speaking_provider_def text_response_def empty_response_def audio_response_def

lemmas service_defs = generateTranscriptFromAudio_def generateSpeechFromText_def getGenAI_def
  generateContent_def transcript_request_def speech_request_def template_string_def
  base64Audio_of_def first_of_def

lemma silent_transcript:
  "generateTranscriptFromAudio (Some ''AAAA'') ''audio/wav'' (world_with silent_provider)
     = (Inr (Some ''hello''),
        (world_with silent_provider)\<lparr>requests_sent := [transcript_request (Some ''AAAA'') ''audio/wav'']\<rparr>)"
  by (simp add: service_defs example_defs)

lemma silent_speech:
  "generateSpeechFromText (Some ''hello'')
     ((world_with silent_provider)\<lparr>requests_sent := [transcript_request (Some ''AAAA'') ''audio/wav'']\<rparr>)
     = (Inr None,
        (world_with silent_provider)\<lparr>requests_sent :=
           [transcript_request (Some ''AAAA'') ''audio/wav'', speech_request (Some ''hello'')]\<rparr>)"
  by (simp add: service_defs example_defs)

theorem no_audio_fails_run_witness:
  "inputAudioFile selected_state = Some example_file
   \<and> fileToBase64 example_file = Inr (Some ''AAAA'', ''audio/wav'')
   \<and> fst (generateTranscriptFromAudio (Some ''AAAA'') ''audio/wav'' (world_with silent_provider))
       = Inr (Some ''hello'')
   \<and> fst (generateSpeechFromText (Some ''hello'')
            (snd (generateTranscriptFromAudio (Some ''AAAA'') ''audio/wav'' (world_with silent_provider))))
       = Inr None
   \<and> error (fst (handleProcessAudio selected_state (world_with silent_provider)))
       = Some ''Processing failed: Failed to generate audio data.''
   \<and> transcript (fst (handleProcessAudio selected_state (world_with silent_provider))) = Some ''hello''
   \<and> isLoading (fst (handleProcessAudio selected_state (world_with silent_provider))) = False
   \<and> progressMessage (fst (handleProcessAudio selected_state (world_with silent_provider))) = []
   \<and> outputAudioUrl (fst (handleProcessAudio selected_state (world_with silent_provider))) = None
   \<and> error (fst (handleProcessAudio selected_state (world_with silent_provider)))
       \<noteq> Some (''Processing failed: '' @ errorMessage (Error ''API_KEY environment variable not set''))"
proof -
  have f: "inputAudioFile selected_state = Some example_file"
    by (simp add: selected_state_def)
  have n: "(None :: string option) = None \<or> (None :: string option) = Some []"
    by simp
  show ?thesis
    using no_audio_fails_run[OF f fileToBase64_example silent_transcript silent_speech n]
    by (simp add: f fileToBase64_example silent_transcript silent_speech)
qed







text \<open>
  C8 (a defect of the code). With a key set and a provider that answers the
  transcription with a response without text, \<open>generateTranscriptFromAudio\<close>, declared
  to return a \<open>string\<close>, returns the absent text instead of throwing: the run stores it
  as the transcript and asks the synthesis to say \<open>undefined\<close>.
\<close>

theorem generateTranscriptFromAudio_empty_response:
  "provider (world_with empty_provider) ''key'' (transcript_request (Some ''AAAA'') ''audio/wav'')
     = Inr \<lparr>response_text = None, response_candidates = None\<rparr>
   \<and> fst (generateTranscriptFromAudio (Some ''AAAA'') ''audio/wav'' (world_with empty_provider))
     = Inr None
   \<and> transcript (fst (handleProcessAudio selected_state (world_with empty_provider))) = None
   \<and> map request_parts (requests_sent (snd (handleProcessAudio selected_state (world_with empty_provider))))
     = [[AudioPart ''audio/wav'' (Some ''AAAA''),
         TextPart ''Please provide a clean, accurate transcription of the following audio.''],
        [TextPart ''Please say the following: undefined'']]"
proof -
  let ?w = "world_with empty_provider"
  have key: "env_API_KEY ?w = Some ''key''" "''key'' \<noteq> []"
    "env_API_KEY (?w\<lparr>requests_sent := r\<rparr>) = Some ''key''" for r
    by (simp_all add: world_with_def)
  have t: "generateTranscriptFromAudio (Some ''AAAA'') ''audio/wav'' ?w
      = (Inr None, ?w\<lparr>requests_sent := [transcript_request (Some ''AAAA'') ''audio/wav'']\<rparr>)"
    using transcript_with_key[OF key(1,2), where d = "Some ''AAAA''" and m = "''audio/wav''"]
    by (simp add: world_with_def empty_provider_def empty_response_def)
  have g: "generateSpeechFromText None (?w\<lparr>requests_sent := [transcript_request (Some ''AAAA'') ''audio/wav'']\<rparr>)
      = (Inr None, ?w\<lparr>requests_sent := [transcript_request (Some ''AAAA'') ''audio/wav'', speech_request None]\<rparr>)"
    using speech_with_key[OF key(3) key(2), where t = None
        and ?r1 = "[transcript_request (Some ''AAAA'') ''audio/wav'']"]
    by (simp add: world_with_def empty_provider_def empty_response_def base64Audio_of_def first_of_def)
  have h: "handleProcessAudio selected_state ?w
      = (selected_state\<lparr>isLoading := False,
           error := Some ''Processing failed: Failed to generate audio data.'',
           transcript := None, outputAudioUrl := None, progressMessage := []\<rparr>,
         ?w\<lparr>requests_sent := [transcript_request (Some ''AAAA'') ''audio/wav'', speech_request None],
            console_errors := console_errors ?w @ [Error ''Failed to generate audio data.'']\<rparr>)"
    by (simp add: handleProcessAudio_def try_block_def fileToBase64_example selected_state_def t g
        initial_state_def)
  show ?thesis
    unfolding h t
    by (simp add: world_with_def empty_provider_def empty_response_def transcript_request_def
        speech_request_def template_string_def)
qed

lemma successful_run:
  assumes "inputAudioFile s = Some file"
    and "fileToBase64 file = Inr (audioData, mimeType)"
    and "generateTranscriptFromAudio audioData mimeType w = (Inr generatedTranscript, w1)"
    and "generateSpeechFromText generatedTranscript w1 = (Inr (Some synthesizedAudioData), w2)"
    and "synthesizedAudioData \<noteq> []"
    and "decode synthesizedAudioData = Inr pcmData"
    and "createWavBlob pcmData 24000 1 = Inr wavBlob"
  shows "handleProcessAudio s w
     = (s\<lparr>isLoading := False, error := None, transcript := generatedTranscript,
          outputAudioUrl := Some (BlobUrl (next_url w2)), progressMessage := []\<rparr>,
        w2\<lparr>live_urls := live_urls w2 @ [BlobUrl (next_url w2)], next_url := Suc (next_url w2)\<rparr>)"
proof -
  let ?s0 = "s\<lparr>isLoading := True, error := None, transcript := Some [], outputAudioUrl := None,
                progressMessage := ''Reading audio file...''\<rparr>"
  have "try_block file ?s0 w
      = (Inr (),
         ?s0\<lparr>progressMessage := ''Generating transcript...'', transcript := generatedTranscript,
              progressMessage := ''Synthesizing audio...'', progressMessage := ''Processing audio...'',
              outputAudioUrl := Some (BlobUrl (next_url w2))\<rparr>,
         w2\<lparr>live_urls := live_urls w2 @ [BlobUrl (next_url w2)], next_url := Suc (next_url w2)\<rparr>)"
    using assms(2-7) by (simp add: try_block_def createObjectURL_def)
  then show ?thesis
    using assms(1) by (simp add: handleProcessAudio_def)
qed

lemma decode_example: "decode ''AQACAA=='' = Inr [0x01, 0x00, 0x02, 0x00]"
proof -
  have "base64_encode [0x01, 0x00, 0x02, 0x00] = ''AQACAA==''"
    by (simp add: b64_char_def b64_alphabet_def)
  then show ?thesis
    using forgiving_base64_decode_encode[of "[0x01, 0x00, 0x02, 0x00]"] by (simp add: decode_eq)
qed

lemma createWavBlob_example: "\<exists>wavBlob. createWavBlob [0x01, 0x00, 0x02, 0x00] 24000 1 = Inr wavBlob"
  by (simp add: createWavBlob_even)

lemma speaking_run:
  assumes "inputAudioFile s = Some example_file" and "env_API_KEY w = Some ''key''"
    and "provider w = speaking_provider"
  shows "handleProcessAudio s w
     = (s\<lparr>isLoading := False, error := None, transcript := Some ''hello'',
          outputAudioUrl := Some (BlobUrl (next_url w)), progressMessage := []\<rparr>,
        w\<lparr>requests_sent := requests_sent w
              @ [transcript_request (Some ''AAAA'') ''audio/wav'', speech_request (Some ''hello'')],
          live_urls := live_urls w @ [BlobUrl (next_url w)], next_url := Suc (next_url w)\<rparr>)"
proof -
  let ?w1 = "w\<lparr>requests_sent := requests_sent w @ [transcript_request (Some ''AAAA'') ''audio/wav'']\<rparr>"
  let ?w2 = "?w1\<lparr>requests_sent := requests_sent ?w1 @ [speech_request (Some ''hello'')]\<rparr>"
  have t: "generateTranscriptFromAudio (Some ''AAAA'') ''audio/wav'' w = (Inr (Some ''hello''), ?w1)"
    using assms(2,3)
    by (simp add: generateTranscriptFromAudio_def getGenAI_def generateContent_def
        speaking_provider_def text_response_def transcript_request_def)
  have g: "generateSpeechFromText (Some ''hello'') ?w1 = (Inr (Some ''AQACAA==''), ?w2)"
    using assms(2,3)
    by (simp add: generateSpeechFromText_def getGenAI_def generateContent_def
        speaking_provider_def audio_response_def speech_request_def base64Audio_of_def first_of_def)
  obtain wavBlob where b: "createWavBlob [0x01, 0x00, 0x02, 0x00] 24000 1 = Inr wavBlob"
    using createWavBlob_example by blast
  have ne: "''AQACAA=='' \<noteq> []" by simp
  show ?thesis
    using successful_run[OF assms(1) fileToBase64_example t g ne decode_example b] by simp
qed

text \<open>
  \<open>handleFileChange\<close> revokes the stored input and output URLs before it replaces
  them.
\<close>

lemma handleFileChange_revokes:
  assumes "inputAudioUrl s = Some u \<or> outputAudioUrl s = Some u"
    and "u \<noteq> BlobUrl (next_url w)"
  shows "u \<notin> set (live_urls (snd (handleFileChange file s w)))"
  using assms
  by (auto simp: handleFileChange_def revoke_if_set_def revokeObjectURL_def createObjectURL_def
      split: option.splits)

text \<open>
  C4 (a defect of the code). Select the example file, process it, and process it again,
  both runs succeeding: the second run replaces the output URL \<open>BlobUrl 1\<close> of the
  first by \<open>BlobUrl 2\<close> and never revokes it, so \<open>BlobUrl 1\<close> is still alive
  although nothing refers to it.
\<close>

theorem reprocessing_keeps_superseded_output_url:
  "(let (s1, w1) = handleFileChange example_file initial_state (world_with speaking_provider);
        (s2, w2) = handleProcessAudio s1 w1;
        (s3, w3) = handleProcessAudio s2 w2
    in (inputAudioUrl s3, outputAudioUrl s2, outputAudioUrl s3, error s3, live_urls w3))
   = (Some (BlobUrl 0), Some (BlobUrl 1), Some (BlobUrl 2), None, [BlobUrl 0, BlobUrl 1, BlobUrl 2])"
proof -
  let ?w = "world_with speaking_provider"
  let ?s1 = "initial_state\<lparr>inputAudioFile := Some example_file, inputAudioUrl := Some (BlobUrl 0),
               transcript := Some [], outputAudioUrl := None, error := None\<rparr>"
  let ?w1 = "?w\<lparr>live_urls := [BlobUrl 0], next_url := Suc 0\<rparr>"
  have h: "handleFileChange example_file initial_state ?w = (?s1, ?w1)"
    by (simp add: handleFileChange_def revoke_if_set_def createObjectURL_def initial_state_def
        world_with_def)
  show ?thesis
    unfolding h
    by (simp add: speaking_run world_with_def initial_state_def)
qed

end
